theory Spec2Isabelle
  imports Main "HOL-Library.Sublist"
begin

section \<open>JavaScript values read by the handlers\<close>

text \<open>
  The repository holds three versions of one Express server: the first program of
  \<^verbatim>\<open>src/server.js\<close> (no store, the status check asks upstream for a URL), the second
  program of \<^verbatim>\<open>src/server.js\<close> (the in-memory \<^verbatim>\<open>videoStore\<close>) and
  \<^verbatim>\<open>src/unnamed/part_000\<close> (videos saved as files). Where the three differ, a definition
  takes the version as a parameter or carries a suffix \<open>_store\<close> / \<open>_file\<close>.
\<close>

datatype variant = Direct | InMemory | Filesystem

text \<open>
  A string that may be \<^verbatim>\<open>undefined\<close> (a missing property of a JSON body, a missing query
  parameter, an unset environment variable) is a \<open>string option\<close>. \<open>falsy\<close> is the
  test \<^verbatim>\<open>!x\<close>; \<open>render\<close> is what a template literal prints.
\<close>

type_synonym jsstr = "string option"

fun falsy :: "jsstr \<Rightarrow> bool" where
  "falsy None = True"
| "falsy (Some s) = (s = [])"

fun render :: "jsstr \<Rightarrow> string" where
  "render None = ''undefined''"
| "render (Some s) = s"

text \<open>
  The values a lookup in one of the two tables can give. The tables are object literals, so
  \<^verbatim>\<open>progress[status]\<close> also finds what every object inherits from
  \<^verbatim>\<open>Object.prototype\<close>: \<open>JInherited k\<close> is the inherited member named \<open>k\<close> (a function,
  or for \<^verbatim>\<open>__proto__\<close> the prototype object), which is truthy and neither a number nor a
  string.
\<close>

datatype js_value = JUndefined | JNumber nat | JString string | JInherited string

fun truthy :: "js_value \<Rightarrow> bool" where
  "truthy JUndefined = False"
| "truthy (JNumber n) = (n \<noteq> 0)"
| "truthy (JString s) = (s \<noteq> [])"
| "truthy (JInherited k) = True"

definition js_or :: "js_value \<Rightarrow> js_value \<Rightarrow> js_value" where
  "js_or a b = (if truthy a then a else b)"

definition object_prototype_keys :: "string list" where
  "object_prototype_keys =
     [''constructor'', ''__defineGetter__'', ''__defineSetter__'', ''hasOwnProperty'',
      ''__lookupGetter__'', ''__lookupSetter__'', ''isPrototypeOf'',
      ''propertyIsEnumerable'', ''toString'', ''valueOf'', ''__proto__'',
      ''toLocaleString'']"

definition get_member :: "(string \<times> js_value) list \<Rightarrow> string \<Rightarrow> js_value" where
  "get_member obj k =
     (case map_of obj k of
        Some v \<Rightarrow> v
      | None \<Rightarrow> if k \<in> set object_prototype_keys then JInherited k else JUndefined)"

section \<open>Helper functions: progress and message of a status\<close>

definition progress :: "(string \<times> js_value) list" where
  "progress =
     [(''preprocessing'', JNumber 20),
      (''queued'', JNumber 30),
      (''running'', JNumber 60),
      (''processing'', JNumber 85),
      (''succeeded'', JNumber 100),
      (''failed'', JNumber 0)]"

definition getProgressFromStatus :: "string \<Rightarrow> js_value" where
  "getProgressFromStatus status = js_or (get_member progress status) (JNumber 10)"

text \<open>The three versions differ in the two texts for \<^verbatim>\<open>succeeded\<close> only.\<close>

fun succeeded_message :: "variant \<Rightarrow> bool \<Rightarrow> string" where
  "succeeded_message Direct videoReady =
     (if videoReady then ''Video ready!'' else ''Finalizing video...'')"
| "succeeded_message InMemory videoReady =
     (if videoReady then ''Video ready for download!'' else ''Finalizing video...'')"
| "succeeded_message Filesystem videoReady =
     (if videoReady then ''Video ready for download!''
      else ''Video generated, preparing download...'')"

definition messages :: "variant \<Rightarrow> bool \<Rightarrow> (string \<times> js_value) list" where
  "messages v videoReady =
     [(''preprocessing'', JString ''Video is being prepared...''),
      (''queued'', JString ''Video is in queue...''),
      (''running'', JString ''Video is being generated...''),
      (''processing'', JString ''Video is processing...''),
      (''succeeded'', JString (succeeded_message v videoReady)),
      (''failed'', JString ''Video generation failed'')]"

definition getStatusMessage :: "variant \<Rightarrow> string \<Rightarrow> bool \<Rightarrow> js_value" where
  "getStatusMessage v status videoReady =
     js_or (get_member (messages v videoReady) status) (JString (''Status: '' @ status))"

section \<open>Configuration, upstream URLs and upstream answers\<close>

record env =
  AZURE_VIDEO_ENDPOINT :: jsstr
  AZURE_VIDEO_KEY :: jsstr
  AZURE_VIDEO_API_VERSION :: jsstr

text \<open>\<^verbatim>\<open>s.replace(/\/$/, '')\<close> drops one slash at the end of the string.\<close>

definition strip_trailing_slash :: "string \<Rightarrow> string" where
  "strip_trailing_slash s = (if s \<noteq> [] \<and> last s = CHR ''/'' then butlast s else s)"

text \<open>
  \<^verbatim>\<open>process.env.AZURE_VIDEO_ENDPOINT.replace(...)\<close> throws a TypeError when the variable is
  unset: \<open>Inl\<close> carries the message of the error.
\<close>

definition baseEndpoint :: "env \<Rightarrow> string + string" where
  "baseEndpoint e =
     (case AZURE_VIDEO_ENDPOINT e of
        None \<Rightarrow> Inl ''Cannot read properties of undefined (reading 'replace')''
      | Some s \<Rightarrow> Inr (strip_trailing_slash s))"

definition apiVersion :: "env \<Rightarrow> string" where
  "apiVersion e =
     (if falsy (AZURE_VIDEO_API_VERSION e) then ''preview''
      else render (AZURE_VIDEO_API_VERSION e))"

definition jobs_url :: "string \<Rightarrow> env \<Rightarrow> string" where
  "jobs_url base e = base @ ''/openai/v1/video/generations/jobs?api-version='' @ apiVersion e"

definition status_url :: "string \<Rightarrow> env \<Rightarrow> jsstr \<Rightarrow> string" where
  "status_url base e jobId =
     base @ ''/openai/v1/video/generations/jobs/'' @ render jobId @ ''?api-version=''
       @ apiVersion e"

text \<open>
  What \<^verbatim>\<open>await fetch(url, ...)\<close> and the reading of the body give: the fetch rejects
  (\<open>Rejected\<close> with the error's message), or it resolves to a response with its status code
  and status text, whose body (\<^verbatim>\<open>response.json()\<close>, \<^verbatim>\<open>response.buffer()\<close>,
  \<^verbatim>\<open>response.arrayBuffer()\<close>) is read (\<open>Inr\<close>) or fails to be read or parsed (\<open>Inl\<close> with
  the error's message).
\<close>

datatype 'a fetch_result = Rejected string | Responded nat string "string + 'a"

definition ok :: "nat \<Rightarrow> bool" where
  "ok st = (200 \<le> st \<and> st \<le> 299)"

fun digit_char :: "nat \<Rightarrow> char" where
  "digit_char n = char_of (48 + n)"

fun string_of_nat :: "nat \<Rightarrow> string" where
  "string_of_nat n =
     (if n < 10 then [digit_char n] else string_of_nat (n div 10) @ [digit_char (n mod 10)])"

declare string_of_nat.simps [simp del]

section \<open>POST /generate-video\<close>

text \<open>
  The fields the three handlers read from \<^verbatim>\<open>req.body\<close> (strings when present), and the
  body they send upstream. What \<^verbatim>\<open>req.body\<close> is for a request without a body is up to
  the installed body parser, which the repository does not pin: an empty object (a request
  record without fields), or \<^verbatim>\<open>undefined\<close>. The handlers take \<^verbatim>\<open>req.body\<close> as a
  \<open>generate_request option\<close>, \<open>None\<close> for \<^verbatim>\<open>undefined\<close>; destructuring it then
  throws inside the \<^verbatim>\<open>try\<close>.
\<close>

record generate_request =
  gr_prompt :: jsstr
  gr_model :: jsstr
  gr_duration :: jsstr
  gr_quality :: jsstr

record request_body =
  rb_model :: string
  rb_prompt :: string
  rb_height :: string
  rb_width :: string
  rb_n_seconds :: string
  rb_n_variants :: string

text \<open>
  The parsed body of the upstream answer to a submission: the two properties the handler
  reads (strings when present; reading them from a number, a string, a boolean or an array
  gives \<^verbatim>\<open>undefined\<close>), and \<open>sub_text\<close>, the text \<^verbatim>\<open>JSON.stringify(responseData)\<close>
  gives for it. The body \<^verbatim>\<open>null\<close> is \<open>None\<close>: reading \<^verbatim>\<open>responseData.id\<close> from it
  throws.
\<close>

record submit_body =
  sub_id :: jsstr
  sub_status :: jsstr
  sub_text :: string

record generate_ok =
  go_jobId :: jsstr
  go_status :: jsstr
  go_message :: string
  go_note :: string

text \<open>\<open>GenOk\<close> is a body with \<^verbatim>\<open>success: true\<close>, \<open>GenFail e\<close> is \<^verbatim>\<open>{success: false, error: e}\<close>.\<close>

datatype generate_response = GenOk generate_ok | GenFail string

text \<open>A default in a destructuring pattern replaces \<^verbatim>\<open>undefined\<close> only.\<close>

fun with_default :: "jsstr \<Rightarrow> string \<Rightarrow> string" where
  "with_default None d = d"
| "with_default (Some s) d = s"

fun requestBody :: "variant \<Rightarrow> generate_request \<Rightarrow> request_body" where
  "requestBody InMemory req =
     (let quality = with_default (gr_quality req) ''720'';
          duration = with_default (gr_duration req) ''5'';
          width = (if quality = ''1080'' then ''1920''
                   else if quality = ''720'' then ''1280'' else ''854'');
          height = (if quality = ''1080'' then ''1080''
                    else if quality = ''720'' then ''720'' else ''480'')
      in \<lparr>rb_model = ''sora'', rb_prompt = render (gr_prompt req), rb_height = height,
          rb_width = width, rb_n_seconds = duration, rb_n_variants = ''1''\<rparr>)"
| "requestBody v req =
     \<lparr>rb_model = with_default (gr_model req) ''sora-2025-05-02'',
      rb_prompt = render (gr_prompt req), rb_height = ''720'', rb_width = ''1280'',
      rb_n_seconds = ''5'', rb_n_variants = ''1''\<rparr>"

text \<open>The store entry of the in-memory version (the value type of \<^verbatim>\<open>videoStore\<close>).\<close>

record entry =
  e_generationId :: jsstr
  e_status :: string
  e_prompt :: jsstr

text \<open>
  What a function does besides returning: the requests it sends, the reads and writes of
  \<^verbatim>\<open>videoStore\<close> and of the videos directory, the timer of the polling loop, the line each
  iteration of a polling loop logs first (\<open>Attempt\<close> with the number of the attempt), and
  the background functions it starts without awaiting them.
\<close>

datatype effect =
    Post string request_body
  | Get string
  | StoreGet jsstr
  | StoreSet jsstr entry
  | Sleep nat
  | FileExists string
  | FileWrite string
  | Attempt nat
  | StartMonitor jsstr
  | StartBackground jsstr jsstr

fun config_missing :: "variant \<Rightarrow> string" where
  "config_missing Filesystem = ''Azure Video configuration missing''"
| "config_missing v = ''Video service configuration missing''"

fun error_prefix :: "variant \<Rightarrow> string" where
  "error_prefix Filesystem = ''Azure API error: ''"
| "error_prefix v = ''Video service error: ''"

fun started_note :: "variant \<Rightarrow> string" where
  "started_note Filesystem =
     ''Video will be ready in 2-5 minutes. Please check status periodically.''"
| "started_note v = ''Video will be ready in 2-5 minutes.''"

fun background :: "variant \<Rightarrow> jsstr \<Rightarrow> jsstr \<Rightarrow> effect list" where
  "background Direct jobId prompt = []"
| "background InMemory jobId prompt = [StartMonitor jobId]"
| "background Filesystem jobId prompt = [StartBackground jobId prompt]"

fun stringify :: "submit_body option \<Rightarrow> string" where
  "stringify None = ''null''"
| "stringify (Some responseData) = sub_text responseData"

definition generate_video ::
  "variant \<Rightarrow> env \<Rightarrow> generate_request option \<Rightarrow> submit_body option fetch_result
     \<Rightarrow> generate_response \<times> effect list" where
  "generate_video v e body upstream =
     (case body of
        None \<Rightarrow>
          (GenFail (''Video generation failed: ''
             @ ''Cannot destructure property 'prompt' of 'req.body' as it is undefined.''), [])
      | Some req \<Rightarrow>
          (if falsy (gr_prompt req) then (GenFail ''Please provide a video prompt'', [])
           else if falsy (AZURE_VIDEO_ENDPOINT e) \<or> falsy (AZURE_VIDEO_KEY e)
           then (GenFail (config_missing v), [])
           else
             (let videoEndpoint =
                    jobs_url (strip_trailing_slash (render (AZURE_VIDEO_ENDPOINT e))) e;
                  sent = [Post videoEndpoint (requestBody v req)]
              in (case upstream of
                    Rejected msg \<Rightarrow> (GenFail (''Video generation failed: '' @ msg), sent)
                  | Responded st txt (Inl msg) \<Rightarrow>
                      (GenFail (''Video generation failed: '' @ msg), sent)
                  | Responded st txt (Inr responseData) \<Rightarrow>
                      (if st = 201 \<or> st = 202
                       then
                         (case responseData of
                            None \<Rightarrow>
                              (GenFail (''Video generation failed: ''
                                 @ ''Cannot read properties of null (reading 'id')''), sent)
                          | Some data \<Rightarrow>
                              (GenOk \<lparr>go_jobId = sub_id data, go_status = sub_status data,
                                 go_message = ''Video generation started successfully!'',
                                 go_note = started_note v\<rparr>,
                               sent @ background v (sub_id data) (gr_prompt req)))
                       else (GenFail (''Video generation failed: '' @ error_prefix v
                               @ string_of_nat st @ '' - '' @ stringify responseData),
                             sent))))))"

section \<open>checkVideoStatus\<close>

text \<open>
  The body of the upstream answer to a status request, as far as the code reads it. An
  element of \<^verbatim>\<open>generations\<close> is an object with an optional \<^verbatim>\<open>id\<close>, or \<^verbatim>\<open>null\<close>
  (\<open>None\<close>).
\<close>

record generation =
  gen_id :: jsstr

record status_body =
  st_status :: jsstr
  st_generations :: "generation option list option"
  st_prompt :: jsstr
  st_created_at :: jsstr
  st_finished_at :: jsstr

text \<open>
  The object \<^verbatim>\<open>checkVideoStatus\<close> returns with \<^verbatim>\<open>success: true\<close>. The versions of
  \<^verbatim>\<open>src/server.js\<close> return \<^verbatim>\<open>generations\<close>, that of \<^verbatim>\<open>part_000\<close> returns
  \<^verbatim>\<open>generationId\<close>, \<^verbatim>\<open>createdAt\<close> and \<^verbatim>\<open>finishedAt\<close>; a property the version does
  not set reads as \<^verbatim>\<open>undefined\<close>. \<open>Inl e\<close> is \<^verbatim>\<open>{success: false, error: e}\<close>.
\<close>

record status_result =
  sr_status :: jsstr
  sr_generations :: "generation option list option"
  sr_generationId :: jsstr
  sr_prompt :: jsstr
  sr_createdAt :: jsstr
  sr_finishedAt :: jsstr

text \<open>\<^verbatim>\<open>data.generations?.[0]?.id\<close>\<close>

fun first_generation_id :: "generation option list option \<Rightarrow> jsstr" where
  "first_generation_id (Some (Some g # gs)) = gen_id g"
| "first_generation_id gens = None"

fun status_failed :: "variant \<Rightarrow> nat \<Rightarrow> string \<Rightarrow> string" where
  "status_failed Filesystem st txt = ''Status check failed: '' @ string_of_nat st @ '' '' @ txt"
| "status_failed v st txt = ''Status check failed: '' @ string_of_nat st"

fun status_of_data :: "variant \<Rightarrow> status_body \<Rightarrow> status_result" where
  "status_of_data Filesystem data =
     \<lparr>sr_status = st_status data, sr_generations = None,
      sr_generationId = first_generation_id (st_generations data),
      sr_prompt = st_prompt data, sr_createdAt = st_created_at data,
      sr_finishedAt = st_finished_at data\<rparr>"
| "status_of_data v data =
     \<lparr>sr_status = st_status data, sr_generations = st_generations data,
      sr_generationId = None, sr_prompt = st_prompt data, sr_createdAt = None,
      sr_finishedAt = None\<rparr>"

definition checkVideoStatus ::
  "variant \<Rightarrow> env \<Rightarrow> jsstr \<Rightarrow> status_body fetch_result
     \<Rightarrow> (string + status_result) \<times> effect list" where
  "checkVideoStatus v e jobId upstream =
     (case baseEndpoint e of
        Inl msg \<Rightarrow> (Inl msg, [])
      | Inr base \<Rightarrow>
          (let sent = [Get (status_url base e jobId)]
           in (case upstream of
                 Rejected msg \<Rightarrow> (Inl msg, sent)
               | Responded st txt body \<Rightarrow>
                   (if \<not> ok st then (Inl (status_failed v st txt), sent)
                    else (case body of
                            Inl msg \<Rightarrow> (Inl msg, sent)
                          | Inr data \<Rightarrow> (Inr (status_of_data v data), sent))))))"

section \<open>The in-memory version: monitorVideoGeneration and the handlers on videoStore\<close>

type_synonym store = "jsstr \<rightharpoonup> entry"

definition maxAttempts :: nat where
  "maxAttempts = 60"

definition checkInterval :: nat where
  "checkInterval = 10000"

definition ready_entry :: "generation \<Rightarrow> jsstr \<Rightarrow> entry" where
  "ready_entry g prompt =
     \<lparr>e_generationId = gen_id g, e_status = ''ready'', e_prompt = prompt\<rparr>"

definition failed_entry :: entry where
  "failed_entry = \<lparr>e_generationId = None, e_status = ''failed'', e_prompt = None\<rparr>"

text \<open>
  One iteration of the loop of \<^verbatim>\<open>monitorVideoGeneration\<close>, after its log line. The first
  component says whether the iteration ends in \<^verbatim>\<open>break\<close>. When \<^verbatim>\<open>generations[0]\<close> is
  \<^verbatim>\<open>null\<close>, reading its \<^verbatim>\<open>id\<close> throws; the \<^verbatim>\<open>catch\<close> of the loop logs the error and the
  loop goes on without the wait.
\<close>

definition monitor_attempt ::
  "env \<Rightarrow> jsstr \<Rightarrow> status_body fetch_result \<Rightarrow> store \<Rightarrow> bool \<times> store \<times> effect list" where
  "monitor_attempt e jobId upstream vs =
     (case checkVideoStatus InMemory e jobId upstream of
        (Inl err, tr) \<Rightarrow> (False, vs, tr @ [Sleep checkInterval])
      | (Inr status, tr) \<Rightarrow>
          if sr_status status = Some ''succeeded'' then
            (case sr_generations status of
               None \<Rightarrow> (True, vs, tr)
             | Some [] \<Rightarrow> (True, vs, tr)
             | Some (None # gs) \<Rightarrow> (False, vs, tr)
             | Some (Some g # gs) \<Rightarrow>
                 (True, vs(jobId \<mapsto> ready_entry g (sr_prompt status)),
                  tr @ [StoreSet jobId (ready_entry g (sr_prompt status))]))
          else if sr_status status = Some ''failed'' then
            (True, vs(jobId \<mapsto> failed_entry), tr @ [StoreSet jobId failed_entry])
          else (False, vs, tr @ [Sleep checkInterval]))"

text \<open>
  The loop from attempt \<open>attempt\<close> on; \<open>upstream k\<close> is what the status request of attempt
  \<open>k\<close> meets.
\<close>

function monitor_from ::
  "env \<Rightarrow> jsstr \<Rightarrow> (nat \<Rightarrow> status_body fetch_result) \<Rightarrow> nat \<Rightarrow> store
     \<Rightarrow> store \<times> effect list" where
  "monitor_from e jobId upstream attempt vs =
     (if attempt \<le> maxAttempts then
        (case monitor_attempt e jobId (upstream attempt) vs of
           (True, vs', tr) \<Rightarrow> (vs', Attempt attempt # tr)
         | (False, vs', tr) \<Rightarrow>
             (case monitor_from e jobId upstream (Suc attempt) vs' of
                (vs'', tr') \<Rightarrow> (vs'', Attempt attempt # tr @ tr')))
      else (vs, []))"
  by pat_completeness auto
termination
  by (relation "measure (\<lambda>(e, jobId, upstream, attempt, vs). Suc maxAttempts - attempt)") auto

declare monitor_from.simps [simp del]

definition monitorVideoGeneration ::
  "env \<Rightarrow> jsstr \<Rightarrow> (nat \<Rightarrow> status_body fetch_result) \<Rightarrow> store \<Rightarrow> store \<times> effect list" where
  "monitorVideoGeneration e jobId upstream vs = monitor_from e jobId upstream 1 vs"

text \<open>
  The body of a successful status check. \<open>co_videoReady = None\<close> is \<^verbatim>\<open>undefined\<close> (the
  property is then left out of the JSON); \<open>co_downloadUrl\<close> and \<open>co_generationId\<close> are set
  by the file version only.
\<close>

record check_ok =
  co_jobId :: jsstr
  co_status :: jsstr
  co_progress :: js_value
  co_downloadUrl :: jsstr
  co_videoReady :: "bool option"
  co_generationId :: jsstr
  co_message :: js_value

datatype check_response = CheckOk check_ok | CheckFail string

definition check_video_status_store ::
  "env \<Rightarrow> jsstr \<Rightarrow> status_body fetch_result \<Rightarrow> store \<Rightarrow> check_response \<times> effect list" where
  "check_video_status_store e jobId upstream vs =
     (if falsy jobId then (CheckFail ''Job ID is required'', [])
      else case checkVideoStatus InMemory e jobId upstream of
             (Inr status, tr) \<Rightarrow>
               let videoData = vs jobId;
                   videoReady = (case videoData of
                                   None \<Rightarrow> None
                                 | Some d \<Rightarrow> Some (e_status d = ''ready''))
               in (CheckOk \<lparr>co_jobId = jobId, co_status = sr_status status,
                     co_progress = getProgressFromStatus (render (sr_status status)),
                     co_downloadUrl = None, co_videoReady = videoReady,
                     co_generationId = None,
                     co_message = getStatusMessage InMemory (render (sr_status status))
                                    (videoReady = Some True)\<rparr>,
                   tr @ [StoreGet jobId])
           | (Inl err, tr) \<Rightarrow> (CheckFail err, tr))"

text \<open>
  GET /download-video: an error with its HTTP status, or the video with the file name of the
  \<^verbatim>\<open>Content-Disposition\<close> header. \<^verbatim>\<open>res.setHeader\<close> throws when the value of a header
  has a character other than the tab, the characters 32 to 126 and those from 128 on (a
  character of a string is a code unit below 256 throughout); the job id is part of the
  value of \<^verbatim>\<open>Content-Disposition\<close>.
\<close>

definition header_char_ok :: "char \<Rightarrow> bool" where
  "header_char_ok c =
     ((of_char c :: nat) = 9 \<or> (32 \<le> (of_char c :: nat) \<and> (of_char c :: nat) \<le> 126) \<or>
      128 \<le> (of_char c :: nat))"

definition header_value_ok :: "string \<Rightarrow> bool" where
  "header_value_ok s = list_all header_char_ok s"

definition content_disposition :: "jsstr \<Rightarrow> string" where
  "content_disposition jobId = ''attachment; filename=\"ai-video-'' @ render jobId @ ''.mp4\"''"

datatype download_response = DlError nat string | DlVideo "nat list" string

definition download_url :: "string \<Rightarrow> env \<Rightarrow> jsstr \<Rightarrow> string" where
  "download_url base e generationId =
     base @ ''/openai/v1/video/generations/'' @ render generationId
       @ ''/content/video?api-version='' @ apiVersion e"

definition download_video ::
  "env \<Rightarrow> jsstr \<Rightarrow> nat list fetch_result \<Rightarrow> store \<Rightarrow> download_response \<times> effect list" where
  "download_video e jobId upstream vs =
     (if falsy jobId then (DlError 400 ''Job ID is required'', [])
      else
        (case vs jobId of
           None \<Rightarrow> (DlError 404 ''Video not ready or not found'', [StoreGet jobId])
         | Some videoData \<Rightarrow>
             (if e_status videoData \<noteq> ''ready''
              then (DlError 404 ''Video not ready or not found'', [StoreGet jobId])
              else
                (case baseEndpoint e of
                   Inl msg \<Rightarrow> (DlError 500 (''Download failed: '' @ msg), [StoreGet jobId])
                 | Inr base \<Rightarrow>
                     (let tr = [StoreGet jobId,
                                Get (download_url base e (e_generationId videoData))]
                      in (case upstream of
                            Rejected msg \<Rightarrow> (DlError 500 (''Download failed: '' @ msg), tr)
                          | Responded st txt body \<Rightarrow>
                              (if \<not> ok st
                               then (DlError 500
                                       (''Download failed: Download failed with status: ''
                                          @ string_of_nat st), tr)
                               else
                                 (case body of
                                    Inl msg \<Rightarrow> (DlError 500 (''Download failed: '' @ msg), tr)
                                  | Inr videoBuffer \<Rightarrow>
                                      (if \<not> header_value_ok (content_disposition jobId)
                                       then (DlError 500
                                               (''Download failed: Invalid character in ''
                                                  @ ''header content [\"Content-Disposition\"]''),
                                             tr)
                                       else (DlVideo videoBuffer
                                               (''ai-video-'' @ render jobId @ ''.mp4''),
                                             tr))))))))))"

record info_ok =
  io_jobId :: jsstr
  io_status :: string
  io_generationId :: jsstr
  io_prompt :: jsstr

datatype info_response = InfoError nat string | InfoOk info_ok

definition get_video_info :: "jsstr \<Rightarrow> store \<Rightarrow> info_response \<times> effect list" where
  "get_video_info jobId vs =
     (if falsy jobId then (InfoError 400 ''Job ID is required'', [])
      else case vs jobId of
             None \<Rightarrow> (InfoError 404 ''Video data not found'', [StoreGet jobId])
           | Some videoData \<Rightarrow>
               (InfoOk \<lparr>io_jobId = jobId, io_status = e_status videoData,
                  io_generationId = e_generationId videoData,
                  io_prompt = e_prompt videoData\<rparr>,
                [StoreGet jobId]))"

section \<open>The file version: background processing and the status check on the videos directory\<close>





text \<open>
  \<^verbatim>\<open>path.join(videosDir, name)\<close> with POSIX paths: the two parts are joined by a slash
  and the result is normalised. Empty segments and \<^verbatim>\<open>.\<close> are dropped; \<^verbatim>\<open>..\<close> removes the
  segment before it, is dropped at the root of an absolute path, and is kept at the start of
  a relative one. The joined path ends in \<^verbatim>\<open>.mp4\<close>, so it has no slash at its end.
\<close>

fun split_slash :: "string \<Rightarrow> string \<Rightarrow> string list" where
  "split_slash cur [] = [rev cur]"
| "split_slash cur (c # cs) =
     (if c = CHR ''/'' then rev cur # split_slash [] cs else split_slash (c # cur) cs)"

fun resolve :: "bool \<Rightarrow> string list \<Rightarrow> string list \<Rightarrow> string list" where
  "resolve isAbsolute res [] = rev res"
| "resolve isAbsolute res (x # xs) =
     (if x = [] \<or> x = ''.'' then resolve isAbsolute res xs
      else if x = ''..'' then
        (if res \<noteq> [] \<and> hd res \<noteq> ''..'' then resolve isAbsolute (tl res) xs
         else if isAbsolute then resolve isAbsolute res xs
         else resolve isAbsolute (''..'' # res) xs)
      else resolve isAbsolute (x # res) xs)"

fun join_slash :: "string list \<Rightarrow> string" where
  "join_slash [] = []"
| "join_slash [x] = x"
| "join_slash (x # y # ys) = x @ ''/'' @ join_slash (y # ys)"

definition normalize :: "string \<Rightarrow> string" where
  "normalize p =
     (let isAbsolute = (p \<noteq> [] \<and> hd p = CHR ''/'');
          s = join_slash (resolve isAbsolute [] (split_slash [] p))
      in if isAbsolute then CHR ''/'' # s else if s = [] then ''.'' else s)"

definition path_join :: "string \<Rightarrow> string \<Rightarrow> string" where
  "path_join a b = normalize (a @ ''/'' @ b)"

text \<open>
  The file system: the files in it, by normalised path, with their bytes. \<open>videosDir\<close> is
  the path of the videos directory, a parameter (the code builds it from \<^verbatim>\<open>HOME\<close> or the
  directory of the program). What \<^verbatim>\<open>fs.writeFile\<close> does is a parameter too: it writes the
  file (\<open>Written\<close>); or it rejects before the file is opened and changes nothing
  (\<open>OpenFailed\<close>); or it rejects after the file was opened with flag \<^verbatim>\<open>w\<close>, which has
  created or emptied it, and leaves the first \<open>n\<close> bytes there (\<open>WriteFailed\<close>). Which of
  the three can happen at a path is up to the file system.
\<close>

type_synonym files = "string \<rightharpoonup> nat list"

datatype write_result = Written | OpenFailed string | WriteFailed string nat

definition video_file :: "jsstr \<Rightarrow> string" where
  "video_file jobId = ''video-'' @ render jobId @ ''.mp4''"

definition video_path :: "string \<Rightarrow> jsstr \<Rightarrow> string" where
  "video_path videosDir jobId = path_join videosDir (video_file jobId)"

definition endpoints :: "string \<Rightarrow> env \<Rightarrow> jsstr \<Rightarrow> jsstr \<Rightarrow> string list" where
  "endpoints base e jobId generationId =
     [base @ ''/openai/v1/video/generations/'' @ render generationId
        @ ''/content?api-version='' @ apiVersion e,
      base @ ''/openai/v1/video/generations/jobs/'' @ render jobId @ ''/generations/''
        @ render generationId @ ''/content?api-version='' @ apiVersion e]"

text \<open>
  The loop over the endpoints in \<^verbatim>\<open>downloadAndSaveVideo\<close>; \<open>upstream url\<close> is what the
  request to \<open>url\<close> meets. The result is \<^verbatim>\<open>videoBuffer\<close> after the loop (\<open>None\<close> is
  \<^verbatim>\<open>null\<close>).
\<close>

fun try_endpoints ::
  "(string \<Rightarrow> nat list fetch_result) \<Rightarrow> string list \<Rightarrow> nat list option \<times> effect list" where
  "try_endpoints upstream [] = (None, [])"
| "try_endpoints upstream (endpoint # rest) =
     (case upstream endpoint of
        Responded st txt (Inr videoBuffer) \<Rightarrow>
          (if ok st then (Some videoBuffer, [Get endpoint])
           else (case try_endpoints upstream rest of (b, tr) \<Rightarrow> (b, Get endpoint # tr)))
      | Responded st txt (Inl msg) \<Rightarrow>
          (case try_endpoints upstream rest of (b, tr) \<Rightarrow> (b, Get endpoint # tr))
      | Rejected msg \<Rightarrow>
          (case try_endpoints upstream rest of (b, tr) \<Rightarrow> (b, Get endpoint # tr)))"

definition saveVideoToStorage ::
  "string \<Rightarrow> jsstr \<Rightarrow> nat list \<Rightarrow> write_result \<Rightarrow> files \<Rightarrow> files \<times> effect list" where
  "saveVideoToStorage videosDir jobId videoBuffer w fs =
     (let filePath = video_path videosDir jobId
      in (case w of
            Written \<Rightarrow> (fs(filePath \<mapsto> videoBuffer), [FileWrite filePath])
          | OpenFailed msg \<Rightarrow> (fs, [FileWrite filePath])
          | WriteFailed msg n \<Rightarrow> (fs(filePath \<mapsto> take n videoBuffer), [FileWrite filePath])))"

definition downloadAndSaveVideo ::
  "string \<Rightarrow> env \<Rightarrow> jsstr \<Rightarrow> jsstr \<Rightarrow> (string \<Rightarrow> nat list fetch_result) \<Rightarrow> write_result
     \<Rightarrow> files \<Rightarrow> files \<times> effect list" where
  "downloadAndSaveVideo videosDir e jobId generationId upstream w fs =
     (case baseEndpoint e of
        Inl msg \<Rightarrow> (fs, [])
      | Inr base \<Rightarrow>
          (case try_endpoints upstream (endpoints base e jobId generationId) of
             (None, tr) \<Rightarrow> (fs, tr)
           | (Some videoBuffer, tr) \<Rightarrow>
               (case saveVideoToStorage videosDir jobId videoBuffer w fs of
                  (fs', tr') \<Rightarrow> (fs', tr @ tr'))))"



section \<open>Reading a trace, and what an attempt observes\<close>

fun attempt_of :: "effect \<Rightarrow> nat list" where
  "attempt_of (Attempt k) = [k]"
| "attempt_of x = []"

definition attempts :: "effect list \<Rightarrow> nat list" where
  "attempts tr = concat (map attempt_of tr)"

fun store_write_of :: "effect \<Rightarrow> (jsstr \<times> entry) list" where
  "store_write_of (StoreSet k v) = [(k, v)]"
| "store_write_of x = []"

definition store_writes :: "effect list \<Rightarrow> (jsstr \<times> entry) list" where
  "store_writes tr = concat (map store_write_of tr)"

text \<open>
  The status an attempt observes: \<open>None\<close> when \<^verbatim>\<open>checkVideoStatus\<close> reports an error (the
  request failed, the answer was no success or had no JSON body, or the endpoint is not
  configured), \<open>Some s\<close> when it reports the upstream status \<open>s\<close>.
\<close>

definition observes :: "variant \<Rightarrow> env \<Rightarrow> jsstr \<Rightarrow> status_body fetch_result \<Rightarrow> jsstr option" where
  "observes v e jobId upstream =
     (case fst (checkVideoStatus v e jobId upstream) of
        Inl err \<Rightarrow> None
      | Inr status \<Rightarrow> Some (sr_status status))"


section \<open>Example inputs\<close>

definition example_env :: env where
  "example_env = \<lparr>AZURE_VIDEO_ENDPOINT = Some ''https://example.test/'',
     AZURE_VIDEO_KEY = Some ''key'', AZURE_VIDEO_API_VERSION = None\<rparr>"

definition example_request :: generate_request where
  "example_request = \<lparr>gr_prompt = Some ''a cat'', gr_model = None, gr_duration = None,
     gr_quality = None\<rparr>"

definition status_answer :: "string \<Rightarrow> generation option list option \<Rightarrow> status_body fetch_result"
  where
  "status_answer s gens =
     Responded 200 ''OK''
       (Inr \<lparr>st_status = Some s, st_generations = gens, st_prompt = Some ''a cat'',
              st_created_at = None, st_finished_at = None\<rparr>)"

definition always :: "'a \<Rightarrow> 'b \<Rightarrow> 'a" where
  "always r k = r"


definition empty_store :: store where
  "empty_store = Map.empty"

definition empty_files :: files where
  "empty_files = Map.empty"

definition example_dir :: string where
  "example_dir = ''/home/site/wwwroot/videos''"

text \<open>An upstream given as a table from URLs to answers; no answer for other URLs.\<close>

definition answers :: "(string \<times> 'a fetch_result) list \<Rightarrow> string \<Rightarrow> 'a fetch_result" where
  "answers table url =
     (case map_of table url of
        Some r \<Rightarrow> r
      | None \<Rightarrow> Rejected ''getaddrinfo ENOTFOUND'')"

section \<open>Notions the claims are stated with\<close>

text \<open>
  What the request to a candidate URL yields for the download: its bytes when the answer is
  an HTTP success whose body is read, nothing otherwise.
\<close>

definition fetched :: "(string \<Rightarrow> nat list fetch_result) \<Rightarrow> string \<Rightarrow> nat list option" where
  "fetched upstream url =
     (case upstream url of
        Responded st txt (Inr videoBuffer) \<Rightarrow> if ok st then Some videoBuffer else None
      | Responded st txt (Inl msg) \<Rightarrow> None
      | Rejected msg \<Rightarrow> None)"

text \<open>
  The result of a status check ends the polling loop: in \<^verbatim>\<open>monitorVideoGeneration\<close> on
  \<^verbatim>\<open>failed\<close> and on \<^verbatim>\<open>succeeded\<close>, unless \<^verbatim>\<open>generations[0]\<close> is \<^verbatim>\<open>null\<close> (then the
  read of its \<^verbatim>\<open>id\<close> throws and the loop goes on); in \<^verbatim>\<open>waitForVideoCompletion\<close> on
  \<^verbatim>\<open>succeeded\<close> and on \<^verbatim>\<open>failed\<close>.
\<close>

definition ends_loop :: "variant \<Rightarrow> string + status_result \<Rightarrow> bool" where
  "ends_loop v res =
     (case res of
        Inl err \<Rightarrow> False
      | Inr status \<Rightarrow>
          (if sr_status status = Some ''succeeded'' then
             (if v = Filesystem then True
              else (case sr_generations status of
                      Some (None # gs) \<Rightarrow> False
                    | Some (Some g # gs) \<Rightarrow> True
                    | Some [] \<Rightarrow> True
                    | None \<Rightarrow> True))
           else sr_status status = Some ''failed''))"

text \<open>
  The poller of version \<open>v\<close> observes the status \<open>s\<close> at attempt \<open>k\<close>: the attempt is
  within the budget, no earlier attempt has ended the loop, and the status check of attempt
  \<open>k\<close> reports \<open>s\<close>.
\<close>

definition observed_at ::
  "variant \<Rightarrow> env \<Rightarrow> jsstr \<Rightarrow> (nat \<Rightarrow> status_body fetch_result) \<Rightarrow> nat \<Rightarrow> string \<Rightarrow> bool" where
  "observed_at v e jobId upstream k s =
     (1 \<le> k \<and> k \<le> maxAttempts \<and>
      (\<forall>i\<in>{1..<k}. \<not> ends_loop v (fst (checkVideoStatus v e jobId (upstream i)))) \<and>
      observes v e jobId (upstream k) = Some (Some s))"



text \<open>
  The operations of the in-memory version that touch \<^verbatim>\<open>videoStore\<close>, in the order of
  their access to it: a run of \<^verbatim>\<open>monitorVideoGeneration\<close> (started by a submission that
  upstream answered with this job id) and the three handlers that read the store. A run
  writes at most once, so its place in the order is the moment of its write. The health
  endpoint reads the size of the store only and is left out.
\<close>

datatype operation =
    Monitor jsstr "nat \<Rightarrow> status_body fetch_result"
  | Check jsstr "status_body fetch_result"
  | Download jsstr "nat list fetch_result"
  | Info jsstr

fun apply_op :: "env \<Rightarrow> store \<Rightarrow> operation \<Rightarrow> store \<times> effect list" where
  "apply_op e vs (Monitor jobId upstream) = monitorVideoGeneration e jobId upstream vs"
| "apply_op e vs (Check jobId upstream) = (vs, snd (check_video_status_store e jobId upstream vs))"
| "apply_op e vs (Download jobId upstream) = (vs, snd (download_video e jobId upstream vs))"
| "apply_op e vs (Info jobId) = (vs, snd (get_video_info jobId vs))"

fun run :: "env \<Rightarrow> store \<Rightarrow> operation list \<Rightarrow> store" where
  "run e vs [] = vs"
| "run e vs (x # xs) = run e (fst (apply_op e vs x)) xs"

fun monitors :: "jsstr \<Rightarrow> operation \<Rightarrow> bool" where
  "monitors jobId (Monitor jobId' upstream) = (jobId' = jobId)"
| "monitors jobId x = False"




text \<open>
  The entry \<^verbatim>\<open>monitorVideoGeneration\<close> stores on a result of the status check: on
  \<^verbatim>\<open>succeeded\<close> with a generations list that starts with a generation, the entry with the
  id of that generation, the status \<^verbatim>\<open>ready\<close> and the prompt of the result; on
  \<^verbatim>\<open>failed\<close> the entry \<^verbatim>\<open>{status: 'failed'}\<close>; nothing otherwise.
\<close>

definition poller_writes :: "status_result \<Rightarrow> entry \<Rightarrow> bool" where
  "poller_writes status en =
     (if sr_status status = Some ''succeeded'' then
        (case sr_generations status of
           Some (Some g # gs) \<Rightarrow> en = ready_entry g (sr_prompt status)
         | Some (None # gs) \<Rightarrow> False
         | Some [] \<Rightarrow> False
         | None \<Rightarrow> False)
      else sr_status status = Some ''failed'' \<and> en = failed_entry)"

definition one_generation :: "generation option list option" where
  "one_generation = Some [Some \<lparr>gen_id = Some ''g1''\<rparr>]"

definition table_keys :: "string list" where
  "table_keys =
     [''preprocessing'', ''queued'', ''running'', ''processing'', ''succeeded'', ''failed'']"

section \<open>Properties of the helper functions\<close>

lemma map_of_progress_None:
  "status \<notin> set table_keys \<Longrightarrow> map_of progress status = None"
  by (simp add: progress_def table_keys_def)

lemma map_of_messages_None:
  "status \<notin> set table_keys \<Longrightarrow> map_of (messages v r) status = None"
  by (simp add: messages_def table_keys_def)

lemma fallback_outside_tables:
  assumes "status \<notin> set table_keys" and "status \<notin> set object_prototype_keys"
  shows "getProgressFromStatus status = JNumber 10"
    and "getStatusMessage v status r = JString (''Status: '' @ status)"
  using assms
  by (simp_all add: getProgressFromStatus_def getStatusMessage_def get_member_def js_or_def
      map_of_progress_None map_of_messages_None)

text \<open>
  C8. The claim: every status outside the two tables gets progress 10 and the message
  \<^verbatim>\<open>Status: <status>\<close>. The status \<^verbatim>\<open>constructor\<close> is in neither table, and both lookups
  find the member every object inherits: the functions return that member, not the
  fallbacks.
\<close>

theorem fallback_misses_inherited_member:
  "''constructor'' \<notin> set table_keys \<and>
   getProgressFromStatus ''constructor'' = JInherited ''constructor'' \<and>
   getProgressFromStatus ''constructor'' \<noteq> JNumber 10 \<and>
   getStatusMessage v ''constructor'' r = JInherited ''constructor'' \<and>
   getStatusMessage v ''constructor'' r \<noteq> JString (''Status: '' @ ''constructor'')"
  by (simp add: getProgressFromStatus_def getStatusMessage_def get_member_def js_or_def
      progress_def messages_def table_keys_def object_prototype_keys_def)

lemma truthy_get_member_progress:
  "truthy (get_member progress status) \<Longrightarrow> get_member progress status \<noteq> JNumber 0"
  by (cases "get_member progress status") simp_all

text \<open>
  C9. For \<^verbatim>\<open>failed\<close> the table holds 0, which is falsy, so the fallback 10 is returned;
  and no status at all has progress 0.
\<close>

theorem failed_progress_is_fallback:
  "getProgressFromStatus ''failed'' = JNumber 10 \<and>
   map_of progress ''failed'' = Some (JNumber 0) \<and>
   (\<forall>status. getProgressFromStatus status \<noteq> JNumber 0)"
proof -
  have a: "getProgressFromStatus ''failed'' = JNumber 10"
    by (simp add: getProgressFromStatus_def get_member_def js_or_def progress_def)
  have b: "map_of progress ''failed'' = Some (JNumber 0)"
    by (simp add: progress_def)
  have c: "getProgressFromStatus status \<noteq> JNumber 0" for status
    using truthy_get_member_progress [of status]
    by (auto simp: getProgressFromStatus_def js_or_def)
  from a b c show ?thesis by blast
qed


section \<open>The polling loops\<close>

lemma attempts_simps [simp]:
  "attempts [] = []"
  "attempts (Attempt k # tr) = k # attempts tr"
  "attempts (Get u # tr) = attempts tr"
  "attempts (Sleep n # tr) = attempts tr"
  "attempts (StoreSet j en # tr) = attempts tr"
  "attempts (tr @ tr') = attempts tr @ attempts tr'"
  by (simp_all add: attempts_def)

lemma store_writes_simps [simp]:
  "store_writes [] = []"
  "store_writes (Attempt k # tr) = store_writes tr"
  "store_writes (Get u # tr) = store_writes tr"
  "store_writes (Sleep n # tr) = store_writes tr"
  "store_writes (StoreSet j en # tr) = (j, en) # store_writes tr"
  "store_writes (tr @ tr') = store_writes tr @ store_writes tr'"
  by (simp_all add: store_writes_def)

lemma checkVideoStatus_quiet:
  "checkVideoStatus v e j r = (res, tr) \<Longrightarrow> attempts tr = [] \<and> store_writes tr = []"
  by (auto simp: checkVideoStatus_def Let_def split: sum.splits fetch_result.splits if_splits)

lemma monitor_attempt_attempts:
  "monitor_attempt e j r vs = (b, vs', tr) \<Longrightarrow> attempts tr = []"
  by (auto simp: monitor_attempt_def dest: checkVideoStatus_quiet
      split: prod.splits sum.splits option.splits list.splits if_splits)

lemma monitor_attempt_continue:
  "monitor_attempt e j r vs = (False, vs', tr) \<Longrightarrow> vs' = vs \<and> store_writes tr = []"
  by (auto simp: monitor_attempt_def dest: checkVideoStatus_quiet
      split: prod.splits sum.splits option.splits list.splits if_splits)












section \<open>POST /generate-video\<close>



text \<open>
  What the handler answers when the prompt is there, the service is configured and upstream
  has answered.
\<close>

lemma generate_video_json_answer:
  assumes "\<not> falsy (gr_prompt req)"
    and "\<not> falsy (AZURE_VIDEO_ENDPOINT e)" and "\<not> falsy (AZURE_VIDEO_KEY e)"
  shows "fst (generate_video v e (Some req) (Responded st txt (Inr (Some data)))) =
           (if st = 201 \<or> st = 202
            then GenOk \<lparr>go_jobId = sub_id data, go_status = sub_status data,
                   go_message = ''Video generation started successfully!'',
                   go_note = started_note v\<rparr>
            else GenFail (''Video generation failed: '' @ error_prefix v
                   @ string_of_nat st @ '' - '' @ sub_text data))"
    and "fst (generate_video v e (Some req) (Responded st txt (Inr None))) =
           (if st = 201 \<or> st = 202
            then GenFail (''Video generation failed: ''
                   @ ''Cannot read properties of null (reading 'id')'')
            else GenFail (''Video generation failed: '' @ error_prefix v
                   @ string_of_nat st @ '' - '' @ ''null''))"
    and "fst (generate_video v e (Some req) (Responded st txt (Inl msg))) =
           GenFail (''Video generation failed: '' @ msg)"
  using assms by (simp_all add: generate_video_def Let_def)

text \<open>
  C5. The claim: for an upstream status other than 201 and 202 the error text holds the status
  code and the body. The handler parses the body as JSON before it looks at the status code,
  so for a 502 with an HTML body the error text is the parser's message, without the status
  code; for a 502 with a JSON body it is \<^verbatim>\<open>Video service error: 502 - <body>\<close>, as the
  claim says.
\<close>

theorem generate_video_unparsable_body:
  "fst (generate_video InMemory example_env (Some example_request)
          (Responded 502 ''Bad Gateway''
             (Inl ''invalid json response body at https://example.test/openai/v1/video/generations/jobs?api-version=preview reason: Unexpected token < in JSON at position 0''))) =
     GenFail ''Video generation failed: invalid json response body at https://example.test/openai/v1/video/generations/jobs?api-version=preview reason: Unexpected token < in JSON at position 0'' \<and>
   \<not> sublist (string_of_nat 502)
       ''Video generation failed: invalid json response body at https://example.test/openai/v1/video/generations/jobs?api-version=preview reason: Unexpected token < in JSON at position 0'' \<and>
   fst (generate_video InMemory example_env (Some example_request)
          (Responded 502 ''Bad Gateway''
             (Inr (Some \<lparr>sub_id = None, sub_status = None, sub_text = ''{}''\<rparr>)))) =
     GenFail ''Video generation failed: Video service error: 502 - {}''"
proof -
  have n: "string_of_nat 502 = ''502''" by code_simp
  have s: "\<not> sublist ''502''
       ''Video generation failed: invalid json response body at https://example.test/openai/v1/video/generations/jobs?api-version=preview reason: Unexpected token < in JSON at position 0''"
    by code_simp
  show ?thesis
    by (simp add: generate_video_def example_env_def example_request_def n s)
qed

section \<open>GET /download-video and GET /get-video-info\<close>

text \<open>
  C10. Without the \<^verbatim>\<open>jobId\<close> query parameter both handlers answer 400 with
  \<^verbatim>\<open>{error: "Job ID is required"}\<close>, and neither reads the store nor sends a request.
\<close>

theorem missing_job_id_is_bad_request:
  "download_video e None upstream vs = (DlError 400 ''Job ID is required'', []) \<and>
   get_video_info None vs = (InfoError 400 ''Job ID is required'', [])"
  by (simp add: download_video_def get_video_info_def)


lemma absent_job_is_not_found:
  "\<not> falsy jobId \<Longrightarrow> vs jobId = None \<Longrightarrow>
     download_video e jobId upstream vs =
       (DlError 404 ''Video not ready or not found'', [StoreGet jobId]) \<and>
     get_video_info jobId vs = (InfoError 404 ''Video data not found'', [StoreGet jobId])"
  by (simp add: download_video_def get_video_info_def)

section \<open>The download of the file version\<close>

lemma try_endpoints_find:
  "try_endpoints upstream es =
     (case find (\<lambda>url. fetched upstream url \<noteq> None) es of
        None \<Rightarrow> (None, map Get es)
      | Some url \<Rightarrow>
          (fetched upstream url,
           map Get (takeWhile (\<lambda>url. fetched upstream url = None) es) @ [Get url]))"
  by (induction es)
     (auto simp: fetched_def split: fetch_result.splits sum.splits option.splits prod.splits)

lemma find_holds: "find P xs = Some x \<Longrightarrow> P x"
  by (auto simp: find_Some_iff)

lemma downloadAndSaveVideo_find:
  "downloadAndSaveVideo videosDir e jobId generationId upstream w fs =
     (case baseEndpoint e of
        Inl msg \<Rightarrow> (fs, [])
      | Inr base \<Rightarrow>
          (case find (\<lambda>url. fetched upstream url \<noteq> None)
                  (endpoints base e jobId generationId) of
             None \<Rightarrow> (fs, map Get (endpoints base e jobId generationId))
           | Some url \<Rightarrow>
               (case w of
                  Written \<Rightarrow> fs(video_path videosDir jobId := fetched upstream url)
                | OpenFailed msg \<Rightarrow> fs
                | WriteFailed msg n \<Rightarrow>
                    fs(video_path videosDir jobId := map_option (take n) (fetched upstream url)),
                map Get (takeWhile (\<lambda>url. fetched upstream url = None)
                           (endpoints base e jobId generationId))
                  @ [Get url, FileWrite (video_path videosDir jobId)])))"
  by (auto simp: downloadAndSaveVideo_def try_endpoints_find saveVideoToStorage_def Let_def
      dest: find_holds split: sum.splits option.splits write_result.splits)

text \<open>The path of a video, and two job ids that name one file.\<close>

lemma example_video_path:
  "video_path example_dir (Some ''job1'') = ''/home/site/wwwroot/videos/video-job1.mp4''"
  by (simp add: video_path_def path_join_def normalize_def example_dir_def video_file_def)

lemma video_path_alias:
  "video_path example_dir (Some ''y/../video-job1'') = video_path example_dir (Some ''job1'')"
  by (simp add: video_path_def path_join_def normalize_def example_dir_def video_file_def)

lemma example_base: "baseEndpoint example_env = Inr ''https://example.test''"
  by (simp add: baseEndpoint_def example_env_def strip_trailing_slash_def)

lemma example_endpoints:
  "endpoints ''https://example.test'' example_env (Some ''job1'') (Some ''g1'') =
     [''https://example.test/openai/v1/video/generations/g1/content?api-version=preview'',
      ''https://example.test/openai/v1/video/generations/jobs/job1/generations/g1/content?api-version=preview'']"
  by (simp add: endpoints_def apiVersion_def example_env_def)

text \<open>
  C7, as the code has it. \<^verbatim>\<open>downloadAndSaveVideo\<close> requests the candidate URLs in their
  listed order, up to and with the first whose answer is an HTTP success with a body that is
  read; the bytes of that candidate are what is written to the normalised path
  \<^verbatim>\<open>path.join(videosDir, 'video-<jobId>.mp4')\<close>. After a successful write the file holds
  those bytes; after a write that failed before the file was opened the file system is
  unchanged; after a write that failed later the file holds a prefix of the bytes. Nothing is
  written when every candidate fails, or when the endpoint is not configured (then no
  candidate is requested).
\<close>

theorem download_uses_first_readable_candidate:
  "downloadAndSaveVideo videosDir e jobId generationId upstream w fs =
     (case baseEndpoint e of
        Inl msg \<Rightarrow> (fs, [])
      | Inr base \<Rightarrow>
          (case find (\<lambda>url. fetched upstream url \<noteq> None)
                  (endpoints base e jobId generationId) of
             None \<Rightarrow> (fs, map Get (endpoints base e jobId generationId))
           | Some url \<Rightarrow>
               (case w of
                  Written \<Rightarrow> fs(video_path videosDir jobId := fetched upstream url)
                | OpenFailed msg \<Rightarrow> fs
                | WriteFailed msg n \<Rightarrow>
                    fs(video_path videosDir jobId := map_option (take n) (fetched upstream url)),
                map Get (takeWhile (\<lambda>url. fetched upstream url = None)
                           (endpoints base e jobId generationId))
                  @ [Get url, FileWrite (video_path videosDir jobId)])))"
  by (rule downloadAndSaveVideo_find)

text \<open>
  C7, as stated, fails in two runs. In the first, the first candidate answers 200 but its body
  cannot be read: the bytes saved are those of the second candidate. In the second, the first
  candidate succeeds and the file cannot be opened for writing: no video is saved although a
  candidate succeeded.
\<close>

theorem download_candidates_counterexample:
  "fst (downloadAndSaveVideo example_dir example_env (Some ''job1'') (Some ''g1'')
          (answers (zip (endpoints ''https://example.test'' example_env (Some ''job1'') (Some ''g1''))
             [Responded 200 ''OK'' (Inl ''Premature close''),
              Responded 200 ''OK'' (Inr [1, 2, 3])]))
          Written empty_files) ''/home/site/wwwroot/videos/video-job1.mp4'' = Some [1, 2, 3] \<and>
   fst (downloadAndSaveVideo example_dir example_env (Some ''job1'') (Some ''g1'')
          (answers (zip (endpoints ''https://example.test'' example_env (Some ''job1'') (Some ''g1''))
             [Responded 200 ''OK'' (Inr [4, 5, 6]),
              Responded 404 ''Not Found'' (Inr [])]))
          (OpenFailed ''EACCES: permission denied'') empty_files) = empty_files"
  by (simp add: downloadAndSaveVideo_def example_base example_video_path example_endpoints
      answers_def ok_def saveVideoToStorage_def empty_files_def Let_def)

section \<open>The in-memory store\<close>

lemma monitor_attempt_ends:
  "fst (monitor_attempt e j r vs) = ends_loop InMemory (fst (checkVideoStatus InMemory e j r))"
  by (cases "checkVideoStatus InMemory e j r")
     (auto simp: monitor_attempt_def ends_loop_def split: sum.splits option.splits list.splits)

lemma monitor_attempt_store:
  assumes "monitor_attempt e j r vs = (b, vs', tr)"
  shows "vs' = vs \<and> store_writes tr = [] \<or>
         (b \<and> (\<exists>s en. fst (checkVideoStatus InMemory e j r) = Inr s \<and> poller_writes s en \<and>
                 vs' = vs(j \<mapsto> en) \<and> store_writes tr = [(j, en)] \<and>
                 tr \<noteq> [] \<and> last tr = StoreSet j en))"
proof (cases "checkVideoStatus InMemory e j r")
  case (Pair res tr0)
  note q = checkVideoStatus_quiet [OF Pair]
  show ?thesis
  proof (cases res)
    case (Inl err)
    with assms Pair q show ?thesis by (auto simp: monitor_attempt_def)
  next
    case (Inr s)
    show ?thesis
    proof (cases "sr_status s = Some ''succeeded''")
      case True
      show ?thesis
      proof (cases "sr_generations s")
        case None
        with assms Pair Inr True q show ?thesis by (auto simp: monitor_attempt_def)
      next
        case (Some gens)
        show ?thesis
        proof (cases gens)
          case Nil
          with assms Pair Inr True Some q show ?thesis by (auto simp: monitor_attempt_def)
        next
          case (Cons g0 gs)
          show ?thesis
          proof (cases g0)
            case None
            with assms Pair Inr True Some Cons q show ?thesis by (auto simp: monitor_attempt_def)
          next
            case (Some g)
            from assms Pair Inr True \<open>sr_generations s = Some gens\<close> Cons Some
            have r: "b" "vs' = vs(j \<mapsto> ready_entry g (sr_prompt s))"
              "tr = tr0 @ [StoreSet j (ready_entry g (sr_prompt s))]"
              by (simp_all add: monitor_attempt_def)
            have pw: "poller_writes s (ready_entry g (sr_prompt s))"
              using True \<open>sr_generations s = Some gens\<close> Cons Some by (simp add: poller_writes_def)
            have "fst (checkVideoStatus InMemory e j r) = Inr s \<and>
                poller_writes s (ready_entry g (sr_prompt s)) \<and>
                vs' = vs(j \<mapsto> ready_entry g (sr_prompt s)) \<and>
                store_writes tr = [(j, ready_entry g (sr_prompt s))] \<and>
                tr \<noteq> [] \<and> last tr = StoreSet j (ready_entry g (sr_prompt s))"
              using r pw q Pair Inr by simp
            with r(1) show ?thesis by blast
          qed
        qed
      qed
    next
      case False
      show ?thesis
      proof (cases "sr_status s = Some ''failed''")
        case f: False
        with assms Pair Inr False q show ?thesis by (auto simp: monitor_attempt_def)
      next
        case True
        from assms Pair Inr False True
        have r: "b" "vs' = vs(j \<mapsto> failed_entry)" "tr = tr0 @ [StoreSet j failed_entry]"
          by (simp_all add: monitor_attempt_def)
        have pw: "poller_writes s failed_entry"
          using False True by (simp add: poller_writes_def)
        have "fst (checkVideoStatus InMemory e j r) = Inr s \<and> poller_writes s failed_entry \<and>
            vs' = vs(j \<mapsto> failed_entry) \<and> store_writes tr = [(j, failed_entry)] \<and>
            tr \<noteq> [] \<and> last tr = StoreSet j failed_entry"
          using r pw q Pair Inr by simp
        with r(1) show ?thesis by blast
      qed
    qed
  qed
qed

lemma monitor_from_store:
  "monitor_from e j up a vs = (vs', tr) \<Longrightarrow>
     vs' = vs \<and> store_writes tr = [] \<or>
     (\<exists>k s en. a \<le> k \<and> k \<le> maxAttempts \<and>
        (\<forall>i. a \<le> i \<and> i < k \<longrightarrow>
           \<not> ends_loop InMemory (fst (checkVideoStatus InMemory e j (up i)))) \<and>
        fst (checkVideoStatus InMemory e j (up k)) = Inr s \<and> poller_writes s en \<and>
        vs' = vs(j \<mapsto> en) \<and> store_writes tr = [(j, en)] \<and>
        attempts tr = [a..<Suc k] \<and> last tr = StoreSet j en)"
proof (induction e j up a vs arbitrary: vs' tr rule: monitor_from.induct)
  case (1 e j up a vs)
  show ?case
  proof (cases "a \<le> maxAttempts")
    case False
    with "1.prems" show ?thesis by (simp add: monitor_from.simps [of e j up a vs])
  next
    case le: True
    obtain b vs1 tr1 where m: "monitor_attempt e j (up a) vs = (b, vs1, tr1)"
      by (cases "monitor_attempt e j (up a) vs") auto
    have at1: "attempts tr1 = []" by (rule monitor_attempt_attempts [OF m])
    show ?thesis
    proof (cases b)
      case True
      with le m "1.prems" have eq: "vs' = vs1" "tr = Attempt a # tr1"
        by (simp_all add: monitor_from.simps [of e j up a vs])
      from monitor_attempt_store [OF m] show ?thesis
      proof
        assume "vs1 = vs \<and> store_writes tr1 = []"
        with eq show ?thesis by simp
      next
        assume "b \<and> (\<exists>s en. fst (checkVideoStatus InMemory e j (up a)) = Inr s \<and>
                 poller_writes s en \<and> vs1 = vs(j \<mapsto> en) \<and> store_writes tr1 = [(j, en)] \<and>
                 tr1 \<noteq> [] \<and> last tr1 = StoreSet j en)"
        then obtain s en where en: "fst (checkVideoStatus InMemory e j (up a)) = Inr s"
          "poller_writes s en" "vs1 = vs(j \<mapsto> en)" "store_writes tr1 = [(j, en)]"
          "tr1 \<noteq> []" "last tr1 = StoreSet j en"
          by blast
        have "a \<le> a \<and> a \<le> maxAttempts \<and>
          (\<forall>i. a \<le> i \<and> i < a \<longrightarrow>
             \<not> ends_loop InMemory (fst (checkVideoStatus InMemory e j (up i)))) \<and>
          fst (checkVideoStatus InMemory e j (up a)) = Inr s \<and> poller_writes s en \<and>
          vs' = vs(j \<mapsto> en) \<and> store_writes tr = [(j, en)] \<and>
          attempts tr = [a..<Suc a] \<and> last tr = StoreSet j en"
        proof -
          have vac: "\<forall>i. a \<le> i \<and> i < a \<longrightarrow>
             \<not> ends_loop InMemory (fst (checkVideoStatus InMemory e j (up i)))"
            by auto
          show ?thesis using en eq le at1 vac by simp
        qed
        then show ?thesis by blast
      qed
    next
      case False
      obtain vs2 tr2 where r: "monitor_from e j up (Suc a) vs1 = (vs2, tr2)"
        by (cases "monitor_from e j up (Suc a) vs1") auto
      from le m False r "1.prems" have eq: "vs' = vs2" "tr = Attempt a # tr1 @ tr2"
        by (simp_all add: monitor_from.simps [of e j up a vs])
      from False m have c: "vs1 = vs" "store_writes tr1 = []"
        using monitor_attempt_continue [of e j "up a" vs vs1 tr1] by simp_all
      have ne: "\<not> ends_loop InMemory (fst (checkVideoStatus InMemory e j (up a)))"
        using monitor_attempt_ends [of e j "up a" vs] m False by simp
      from "1.IH" [OF le m [symmetric] _ refl r] False
      have "vs2 = vs1 \<and> store_writes tr2 = [] \<or>
        (\<exists>k s en. Suc a \<le> k \<and> k \<le> maxAttempts \<and>
           (\<forall>i. Suc a \<le> i \<and> i < k \<longrightarrow>
              \<not> ends_loop InMemory (fst (checkVideoStatus InMemory e j (up i)))) \<and>
           fst (checkVideoStatus InMemory e j (up k)) = Inr s \<and> poller_writes s en \<and>
           vs2 = vs1(j \<mapsto> en) \<and> store_writes tr2 = [(j, en)] \<and>
           attempts tr2 = [Suc a..<Suc k] \<and> last tr2 = StoreSet j en)"
        by blast
      then show ?thesis
      proof
        assume "vs2 = vs1 \<and> store_writes tr2 = []"
        with eq c show ?thesis by simp
      next
        assume "\<exists>k s en. Suc a \<le> k \<and> k \<le> maxAttempts \<and>
           (\<forall>i. Suc a \<le> i \<and> i < k \<longrightarrow>
              \<not> ends_loop InMemory (fst (checkVideoStatus InMemory e j (up i)))) \<and>
           fst (checkVideoStatus InMemory e j (up k)) = Inr s \<and> poller_writes s en \<and>
           vs2 = vs1(j \<mapsto> en) \<and> store_writes tr2 = [(j, en)] \<and>
           attempts tr2 = [Suc a..<Suc k] \<and> last tr2 = StoreSet j en"
        then obtain k s en where k: "Suc a \<le> k" "k \<le> maxAttempts"
          "\<forall>i. Suc a \<le> i \<and> i < k \<longrightarrow>
              \<not> ends_loop InMemory (fst (checkVideoStatus InMemory e j (up i)))"
          "fst (checkVideoStatus InMemory e j (up k)) = Inr s" "poller_writes s en"
          "vs2 = vs1(j \<mapsto> en)" "store_writes tr2 = [(j, en)]"
          "attempts tr2 = [Suc a..<Suc k]" "last tr2 = StoreSet j en"
          by blast
        have ne2: "tr2 \<noteq> []" using k(7) by auto
        have all: "\<forall>i. a \<le> i \<and> i < k \<longrightarrow>
              \<not> ends_loop InMemory (fst (checkVideoStatus InMemory e j (up i)))"
        proof (intro allI impI)
          fix i assume i: "a \<le> i \<and> i < k"
          show "\<not> ends_loop InMemory (fst (checkVideoStatus InMemory e j (up i)))"
          proof (cases "i = a")
            case True
            with ne show ?thesis by simp
          next
            case False
            with i have "Suc a \<le> i \<and> i < k" by simp
            with k(3) show ?thesis by blast
          qed
        qed
        have up: "[a..<Suc k] = a # [Suc a..<Suc k]"
          using k(1) by (simp add: upt_conv_Cons)
        have "a \<le> k \<and> k \<le> maxAttempts \<and>
          (\<forall>i. a \<le> i \<and> i < k \<longrightarrow>
             \<not> ends_loop InMemory (fst (checkVideoStatus InMemory e j (up i)))) \<and>
          fst (checkVideoStatus InMemory e j (up k)) = Inr s \<and> poller_writes s en \<and>
          vs' = vs(j \<mapsto> en) \<and> store_writes tr = [(j, en)] \<and>
          attempts tr = [a..<Suc k] \<and> last tr = StoreSet j en"
          using k all eq c at1 ne2 up by simp
        then show ?thesis by blast
      qed
    qed
  qed
qed


lemma monitor_from_skip_ends:
  assumes "\<forall>i. a \<le> i \<and> i < b \<longrightarrow>
             \<not> ends_loop InMemory (fst (checkVideoStatus InMemory e j (up i)))"
    and "a \<le> b" and "b \<le> Suc maxAttempts"
  shows "fst (monitor_from e j up a vs) = fst (monitor_from e j up b vs)"
  using assms(2,1,3)
proof (induction rule: inc_induct)
  case base
  show ?case by simp
next
  case (step n)
  have le: "n \<le> maxAttempts" using step.hyps step.prems by simp
  have nb: "\<not> fst (monitor_attempt e j (up n) vs)"
    using step.prems(1) step.hyps by (simp add: monitor_attempt_ends)
  obtain vs' tr where m: "monitor_attempt e j (up n) vs = (False, vs', tr)"
    using nb by (cases "monitor_attempt e j (up n) vs") auto
  have c: "vs' = vs" using monitor_attempt_continue [OF m] by simp
  obtain vs'' tr' where r: "monitor_from e j up (Suc n) vs = (vs'', tr')"
    by (cases "monitor_from e j up (Suc n) vs") auto
  have ih: "fst (monitor_from e j up (Suc n) vs) = fst (monitor_from e j up b vs)"
    using step.IH step.prems by simp
  with le m c r show ?case
    by (simp add: monitor_from.simps [of e j up n vs])
qed

lemma monitor_other_job:
  assumes "j' \<noteq> j"
  shows "fst (monitorVideoGeneration e j' up vs) j = vs j"
  using monitor_from_store [OF surjective_pairing, of e j' up 1 vs] assms
  by (auto simp: monitorVideoGeneration_def)

lemma monitor_dom:
  "dom vs \<subseteq> dom (fst (monitorVideoGeneration e j up vs))"
  using monitor_from_store [OF surjective_pairing, of e j up 1 vs]
  by (auto simp: monitorVideoGeneration_def)

lemma apply_op_dom: "dom vs \<subseteq> dom (fst (apply_op e vs x))"
  using monitor_dom by (cases x) auto

lemma run_dom: "dom vs \<subseteq> dom (run e vs ops)"
proof (induction ops arbitrary: vs)
  case Nil
  show ?case by simp
next
  case (Cons x xs)
  have "dom vs \<subseteq> dom (fst (apply_op e vs x))" by (rule apply_op_dom)
  also have "\<dots> \<subseteq> dom (run e (fst (apply_op e vs x)) xs)" by (rule Cons.IH)
  finally show ?case by simp
qed

lemma apply_op_other_job:
  "\<not> monitors j x \<Longrightarrow> fst (apply_op e vs x) j = vs j"
  by (cases x) (auto simp: monitor_other_job)

lemma run_other_jobs:
  "\<forall>x\<in>set ops. \<not> monitors j x \<Longrightarrow> run e vs ops j = vs j"
  by (induction ops arbitrary: vs) (simp_all add: apply_op_other_job)

lemma handlers_write_nothing:
  "store_writes (snd (check_video_status_store e j r vs)) = []"
  "store_writes (snd (download_video e j d vs)) = []"
  "store_writes (snd (get_video_info j vs)) = []"
proof -
  show "store_writes (snd (check_video_status_store e j r vs)) = []"
    by (cases "checkVideoStatus InMemory e j r")
       (auto simp: check_video_status_store_def Let_def store_writes_def
          dest: checkVideoStatus_quiet split: sum.splits)
  show "store_writes (snd (download_video e j d vs)) = []"
    by (auto simp: download_video_def Let_def store_writes_def
        split: option.splits sum.splits fetch_result.splits)
  show "store_writes (snd (get_video_info j vs)) = []"
    by (auto simp: get_video_info_def store_writes_def split: option.splits)
qed

text \<open>
  C4, as the code has it. A run of the poller either leaves the store as it is and writes
  nothing, or it makes exactly one write, the last thing it does, at an attempt \<open>k\<close> that it
  reaches (no earlier attempt has ended the loop): there the status check reports
  \<^verbatim>\<open>succeeded\<close> with a generations list that starts with a generation, and the entry of the
  run's own job id is set to that generation's id, the status \<^verbatim>\<open>ready\<close> and the prompt; or
  it reports \<^verbatim>\<open>failed\<close>, and the entry is set to \<^verbatim>\<open>{status: 'failed'}\<close>. The three
  handlers that read the store never write it. No sequence of operations removes a key, and
  the entry of a job id is the same after any sequence of operations in which no poller runs
  for that job id.
\<close>

theorem store_written_by_poller_only:
  "(fst (monitorVideoGeneration e j up vs) = vs \<and>
      store_writes (snd (monitorVideoGeneration e j up vs)) = [] \<or>
    (\<exists>k s en. 1 \<le> k \<and> k \<le> maxAttempts \<and>
       (\<forall>i\<in>{1..<k}. \<not> ends_loop InMemory (fst (checkVideoStatus InMemory e j (up i)))) \<and>
       fst (checkVideoStatus InMemory e j (up k)) = Inr s \<and> poller_writes s en \<and>
       fst (monitorVideoGeneration e j up vs) = vs(j \<mapsto> en) \<and>
       store_writes (snd (monitorVideoGeneration e j up vs)) = [(j, en)] \<and>
       attempts (snd (monitorVideoGeneration e j up vs)) = [1..<Suc k] \<and>
       last (snd (monitorVideoGeneration e j up vs)) = StoreSet j en)) \<and>
   store_writes (snd (check_video_status_store e j r vs)) = [] \<and>
   store_writes (snd (download_video e j d vs)) = [] \<and>
   store_writes (snd (get_video_info j vs)) = [] \<and>
   dom vs \<subseteq> dom (run e vs ops) \<and>
   ((\<forall>x\<in>set ops. \<not> monitors j x) \<longrightarrow> run e vs ops j = vs j)"
proof -
  have w: "fst (monitorVideoGeneration e j up vs) = vs \<and>
      store_writes (snd (monitorVideoGeneration e j up vs)) = [] \<or>
    (\<exists>k s en. 1 \<le> k \<and> k \<le> maxAttempts \<and>
       (\<forall>i\<in>{1..<k}. \<not> ends_loop InMemory (fst (checkVideoStatus InMemory e j (up i)))) \<and>
       fst (checkVideoStatus InMemory e j (up k)) = Inr s \<and> poller_writes s en \<and>
       fst (monitorVideoGeneration e j up vs) = vs(j \<mapsto> en) \<and>
       store_writes (snd (monitorVideoGeneration e j up vs)) = [(j, en)] \<and>
       attempts (snd (monitorVideoGeneration e j up vs)) = [1..<Suc k] \<and>
       last (snd (monitorVideoGeneration e j up vs)) = StoreSet j en)"
  proof -
    let ?M = "monitor_from e j up 1 vs"
    from monitor_from_store [OF surjective_pairing, of e j up 1 vs]
    have "fst ?M = vs \<and> store_writes (snd ?M) = [] \<or>
      (\<exists>k s en. 1 \<le> k \<and> k \<le> maxAttempts \<and>
        (\<forall>i. 1 \<le> i \<and> i < k \<longrightarrow>
           \<not> ends_loop InMemory (fst (checkVideoStatus InMemory e j (up i)))) \<and>
        fst (checkVideoStatus InMemory e j (up k)) = Inr s \<and> poller_writes s en \<and>
        fst ?M = vs(j \<mapsto> en) \<and> store_writes (snd ?M) = [(j, en)] \<and>
        attempts (snd ?M) = [1..<Suc k] \<and> last (snd ?M) = StoreSet j en)" .
    then show ?thesis
    proof
      assume "fst ?M = vs \<and> store_writes (snd ?M) = []"
      then show ?thesis by (simp add: monitorVideoGeneration_def)
    next
      assume "\<exists>k s en. 1 \<le> k \<and> k \<le> maxAttempts \<and>
        (\<forall>i. 1 \<le> i \<and> i < k \<longrightarrow>
           \<not> ends_loop InMemory (fst (checkVideoStatus InMemory e j (up i)))) \<and>
        fst (checkVideoStatus InMemory e j (up k)) = Inr s \<and> poller_writes s en \<and>
        fst ?M = vs(j \<mapsto> en) \<and> store_writes (snd ?M) = [(j, en)] \<and>
        attempts (snd ?M) = [1..<Suc k] \<and> last (snd ?M) = StoreSet j en"
      then obtain k s en where k: "1 \<le> k" "k \<le> maxAttempts"
        "\<forall>i. 1 \<le> i \<and> i < k \<longrightarrow>
           \<not> ends_loop InMemory (fst (checkVideoStatus InMemory e j (up i)))"
        "fst (checkVideoStatus InMemory e j (up k)) = Inr s" "poller_writes s en"
        "fst ?M = vs(j \<mapsto> en)" "store_writes (snd ?M) = [(j, en)]"
        "attempts (snd ?M) = [1..<Suc k]" "last (snd ?M) = StoreSet j en"
        by blast
      have ball: "\<forall>i\<in>{1..<k}.
          \<not> ends_loop InMemory (fst (checkVideoStatus InMemory e j (up i)))"
        using k(3) by simp
      have "1 \<le> k \<and> k \<le> maxAttempts \<and>
       (\<forall>i\<in>{1..<k}. \<not> ends_loop InMemory (fst (checkVideoStatus InMemory e j (up i)))) \<and>
       fst (checkVideoStatus InMemory e j (up k)) = Inr s \<and> poller_writes s en \<and>
       fst (monitorVideoGeneration e j up vs) = vs(j \<mapsto> en) \<and>
       store_writes (snd (monitorVideoGeneration e j up vs)) = [(j, en)] \<and>
       attempts (snd (monitorVideoGeneration e j up vs)) = [1..<Suc k] \<and>
       last (snd (monitorVideoGeneration e j up vs)) = StoreSet j en"
        using k(1,2,4-9) ball unfolding monitorVideoGeneration_def by blast
      then show ?thesis by blast
    qed
  qed
  show ?thesis
    using w handlers_write_nothing run_dom [of vs e ops]
      run_other_jobs [of ops j e vs]
    by blast
qed

lemma observed_at_parts:
  assumes "observed_at v e j up k s"
  shows "\<forall>i. 1 \<le> i \<and> i < k \<longrightarrow> \<not> ends_loop v (fst (checkVideoStatus v e j (up i)))"
    and "1 \<le> k" and "k \<le> Suc maxAttempts" and "k \<le> maxAttempts"
    and "observes v e j (up k) = Some (Some s)"
  using assms by (simp_all add: observed_at_def)

lemma monitor_from_break:
  assumes "a \<le> maxAttempts" and "fst (monitor_attempt e j (up a) vs)"
  shows "fst (monitor_from e j up a vs) = fst (snd (monitor_attempt e j (up a) vs))"
  using assms
  by (cases "monitor_attempt e j (up a) vs") (simp add: monitor_from.simps [of e j up a vs])

lemma monitor_attempt_failed:
  "observes InMemory e j r = Some (Some ''failed'') \<Longrightarrow>
     fst (monitor_attempt e j r vs) \<and> fst (snd (monitor_attempt e j r vs)) = vs(j \<mapsto> failed_entry)"
  by (cases "checkVideoStatus InMemory e j r")
     (auto simp: monitor_attempt_def observes_def split: sum.splits)

lemma monitor_attempt_succeeded:
  "fst (checkVideoStatus InMemory e j r) = Inr s \<Longrightarrow> sr_status s = Some ''succeeded'' \<Longrightarrow>
   sr_generations s = Some (Some g # gs) \<Longrightarrow>
     fst (monitor_attempt e j r vs) \<and>
     fst (snd (monitor_attempt e j r vs)) = vs(j \<mapsto> ready_entry g (sr_prompt s))"
  by (cases "checkVideoStatus InMemory e j r") (auto simp: monitor_attempt_def)

lemma monitor_observed_failed:
  assumes "observed_at InMemory e j up k ''failed''"
  shows "fst (monitorVideoGeneration e j up vs) = vs(j \<mapsto> failed_entry)"
proof -
  note st = observed_at_parts [OF assms]
  have "fst (monitor_from e j up 1 vs) = fst (monitor_from e j up k vs)"
    by (rule monitor_from_skip_ends [OF st(1) st(2) st(3)])
  also have "\<dots> = fst (snd (monitor_attempt e j (up k) vs))"
    using monitor_from_break [OF st(4)] monitor_attempt_failed [OF st(5)] by simp
  also have "\<dots> = vs(j \<mapsto> failed_entry)"
    using monitor_attempt_failed [OF st(5)] by simp
  finally show ?thesis by (simp add: monitorVideoGeneration_def)
qed

lemma monitor_observed_succeeded:
  assumes "observed_at InMemory e j up k ''succeeded''"
    and "fst (checkVideoStatus InMemory e j (up k)) = Inr s"
    and "sr_generations s = Some (Some g # gs)"
  shows "fst (monitorVideoGeneration e j up vs) = vs(j \<mapsto> ready_entry g (sr_prompt s))"
proof -
  note st = observed_at_parts [OF assms(1)]
  have ss: "sr_status s = Some ''succeeded''"
    using st(5) assms(2) by (simp add: observes_def)
  note ma = monitor_attempt_succeeded [OF assms(2) ss assms(3)]
  have "fst (monitor_from e j up 1 vs) = fst (monitor_from e j up k vs)"
    by (rule monitor_from_skip_ends [OF st(1) st(2) st(3)])
  also have "\<dots> = fst (snd (monitor_attempt e j (up k) vs))"
    using monitor_from_break [OF st(4)] ma by simp
  also have "\<dots> = vs(j \<mapsto> ready_entry g (sr_prompt s))"
    using ma by simp
  finally show ?thesis by (simp add: monitorVideoGeneration_def)
qed




lemma example_observed:
  "observed_at v example_env (Some j) (always (status_answer s gens)) 1 s"
  by (cases v)
     (simp_all add: observed_at_def observes_def checkVideoStatus_def baseEndpoint_def
        example_env_def always_def status_answer_def ok_def Let_def maxAttempts_def)

lemma example_status:
  "fst (checkVideoStatus InMemory example_env (Some j) (status_answer s gens)) =
     Inr \<lparr>sr_status = Some s, sr_generations = gens, sr_generationId = None,
           sr_prompt = Some ''a cat'', sr_createdAt = None, sr_finishedAt = None\<rparr>"
  "fst (checkVideoStatus Filesystem example_env (Some j) (status_answer s gens)) =
     Inr \<lparr>sr_status = Some s, sr_generations = None,
           sr_generationId = first_generation_id gens,
           sr_prompt = Some ''a cat'', sr_createdAt = None, sr_finishedAt = None\<rparr>"
  by (simp_all add: checkVideoStatus_def baseEndpoint_def example_env_def status_answer_def
      ok_def Let_def)


lemma example_failed_store:
  "fst (monitorVideoGeneration example_env (Some ''job1'')
          (always (status_answer ''failed'' None)) empty_store) =
     empty_store(Some ''job1'' \<mapsto> failed_entry)"
  by (rule monitor_observed_failed [OF example_observed])

lemma example_ready_store:
  "fst (monitorVideoGeneration example_env (Some j)
          (always (status_answer ''succeeded'' one_generation)) vs) =
     vs(Some j \<mapsto> ready_entry \<lparr>gen_id = Some ''g1''\<rparr> (Some ''a cat''))"
proof -
  have cs: "fst (checkVideoStatus InMemory example_env (Some j)
                   (always (status_answer ''succeeded'' one_generation) 1)) =
     Inr \<lparr>sr_status = Some ''succeeded'', sr_generations = one_generation,
           sr_generationId = None, sr_prompt = Some ''a cat'', sr_createdAt = None,
           sr_finishedAt = None\<rparr>"
    by (simp add: always_def example_status)
  have g: "sr_generations \<lparr>sr_status = Some ''succeeded'', sr_generations = one_generation,
           sr_generationId = None, sr_prompt = Some ''a cat'', sr_createdAt = None,
           sr_finishedAt = None\<rparr> = Some (Some \<lparr>gen_id = Some ''g1''\<rparr> # [])"
    by (simp add: one_generation_def)
  from monitor_observed_succeeded [OF example_observed cs g] show ?thesis by simp
qed

text \<open>
  An entry written for \<^verbatim>\<open>job1\<close> is unchanged by a status check, a poller run for
  \<^verbatim>\<open>job2\<close>, a download and an info request.
\<close>

theorem store_written_by_poller_only_witness:
  "run example_env
     (fst (monitorVideoGeneration example_env (Some ''job1'')
        (always (status_answer ''succeeded'' one_generation)) empty_store))
     [Check (Some ''job1'') (status_answer ''succeeded'' one_generation),
      Monitor (Some ''job2'') (always (status_answer ''failed'' None)),
      Download (Some ''job1'') (Responded 200 ''OK'' (Inr [1, 2, 3])),
      Info (Some ''job1'')] (Some ''job1'') =
   Some (ready_entry \<lparr>gen_id = Some ''g1''\<rparr> (Some ''a cat''))"
proof -
  have "\<forall>x\<in>set [Check (Some ''job1'') (status_answer ''succeeded'' one_generation),
      Monitor (Some ''job2'') (always (status_answer ''failed'' None)),
      Download (Some ''job1'') (Responded 200 ''OK'' (Inr [1, 2, 3])),
      Info (Some ''job1'')]. \<not> monitors (Some ''job1'') x"
    by simp
  with store_written_by_poller_only [of example_env "Some ''job1''"
      "always (status_answer ''succeeded'' one_generation)"
      "fst (monitorVideoGeneration example_env (Some ''job1'')
        (always (status_answer ''succeeded'' one_generation)) empty_store)"]
  have "run example_env
     (fst (monitorVideoGeneration example_env (Some ''job1'')
        (always (status_answer ''succeeded'' one_generation)) empty_store))
     [Check (Some ''job1'') (status_answer ''succeeded'' one_generation),
      Monitor (Some ''job2'') (always (status_answer ''failed'' None)),
      Download (Some ''job1'') (Responded 200 ''OK'' (Inr [1, 2, 3])),
      Info (Some ''job1'')] (Some ''job1'') =
   fst (monitorVideoGeneration example_env (Some ''job1'')
        (always (status_answer ''succeeded'' one_generation)) empty_store) (Some ''job1'')"
    by blast
  then show ?thesis by (simp add: example_ready_store)
qed

text \<open>
  C4, as stated, fails: a poller that observes \<^verbatim>\<open>failed\<close> creates an entry too, and
  an entry is replaced when a later poller runs for the same job id (two submissions that
  upstream answers with one id).
\<close>

theorem store_entry_counterexample:
  "fst (monitorVideoGeneration example_env (Some ''job1'')
          (always (status_answer ''failed'' None)) empty_store) (Some ''job1'') =
     Some failed_entry \<and>
   run example_env
     (fst (monitorVideoGeneration example_env (Some ''job1'')
             (always (status_answer ''failed'' None)) empty_store))
     [Monitor (Some ''job1'') (always (status_answer ''succeeded'' one_generation))]
     (Some ''job1'') =
     Some (ready_entry \<lparr>gen_id = Some ''g1''\<rparr> (Some ''a cat''))"
  by (simp add: example_failed_store example_ready_store)




section \<open>A job that succeeded\<close>















end
